theory Spec2Isabelle
  imports Main
begin

section \<open>The CSW search plugin of EODAG (eodag/plugins/search/csw.py)\<close>

text \<open>
  The plugin translates a generic search (product type, footprint, time range) into
  constraints of the catalogue protocol, runs one remote query per configured
  product-type definition and turns each returned record into a product. The theory
  follows the Python method by method. What the module imports (the owslib client, pyproj,
  \<open>re\<close>, and the helpers \<open>properties_from_xml\<close>, \<open>slugify\<close> and
  \<open>EOProduct\<close>) is not part of the module: these are parameters of the model, collected
  in one record of functions, and every one of them that can raise returns a sum.
\<close>

subsection \<open>Exceptions\<close>

text \<open>
  \<open>ExceptionReport\<close> is owslib's service exception, the only class the query loop
  catches. \<open>OtherException\<close> stands for any other subclass of \<open>Exception\<close>, tagged
  with its class name.
\<close>

datatype py_error = ExceptionReport | OtherException string

subsection \<open>Search parameters and configuration\<close>

text \<open>
  The footprint of a search is a dict with the four keys the constraint builder reads.
  The keyword arguments of \<open>query\<close> (once \<open>auth\<close> is popped) are read under four
  keys; a key that is absent reads as \<open>None\<close>, as \<open>dict.get\<close> does.
\<close>

record 'c footprint =
  lonmin :: 'c
  latmin :: 'c
  lonmax :: 'c
  latmax :: 'c

record 'c params =
  geometry :: "'c footprint option"
  startTimeFromAscendingNode :: "string option"
  completionTimeFromAscendingNode :: "string option"
  footprints :: "'c footprint option"

text \<open>One entry of \<open>search_definitions.pt_tags\<close>: \<open>name\<close>, and \<open>matching\<close> if set.\<close>

record product_type_def =
  name :: string
  matching :: "string option"

datatype mapping_rule = Rule string | EncodedRule string string

record config =
  api_endpoint :: string
  version :: "string option"
  pt_tags :: "product_type_def list"
  date_start :: string
  date_end :: string
  resource_location_filter :: "string option"
  metadata_mapping :: "(string \<times> mapping_rule) list"

subsection \<open>Constraints\<close>

text \<open>
  The owslib.fes classes the builder instantiates, with their constructor arguments in
  the order of the source. The builder returns a Python list whose elements are either
  constraints or one inner list of constraints; \<open>constraint_item\<close> is such an element.
\<close>

datatype 'c constraint =
    PropertyIsLike string string
  | PropertyIsEqualTo string string
  | BBox "'c list"
  | PropertyIsGreaterThanOrEqualTo string string
  | PropertyIsLessThanOrEqualTo string string

datatype 'c constraint_item = Single "'c constraint" | Group "'c constraint list"

text \<open>Lines 135 to 143: the product-type constraint, chosen by the matching mode.\<close>

definition product_type_constraint :: "product_type_def \<Rightarrow> string \<Rightarrow> 'c constraint" where
  "product_type_constraint product_type_def product_type =
     (let pt_tag = name product_type_def;
          matching_mode = (case matching product_type_def of None \<Rightarrow> ''fuzzy'' | Some m \<Rightarrow> m)
      in if matching_mode = ''prefix'' then PropertyIsLike pt_tag (product_type @ ''%'')
         else if matching_mode = ''postfix'' then PropertyIsLike pt_tag (''%'' @ product_type)
         else if matching_mode = ''exact'' then PropertyIsEqualTo pt_tag product_type
         else PropertyIsLike pt_tag (''%'' @ product_type @ ''%''))"

text \<open>
  Lines 133 to 155: the list \<open>constraints\<close> as it stands before the return. A footprint
  is a non-empty dict, hence true when present; a timestamp is a string, false when
  \<open>None\<close> or empty.
\<close>

definition collect_constraints ::
  "config \<Rightarrow> product_type_def \<Rightarrow> string \<Rightarrow> 'c params \<Rightarrow> 'c constraint list" where
  "collect_constraints cfg product_type_def product_type ps =
     (let constraints0 = [product_type_constraint product_type_def product_type];
          constraints1 =
            (case geometry ps of
               None \<Rightarrow> constraints0
             | Some fp \<Rightarrow> constraints0 @ [BBox [lonmin fp, latmin fp, lonmax fp, latmax fp]]);
          constraints2 =
            (case startTimeFromAscendingNode ps of
               None \<Rightarrow> constraints1
             | Some start \<Rightarrow>
                 if start = [] then constraints1
                 else constraints1 @ [PropertyIsGreaterThanOrEqualTo (date_start cfg) start]);
          constraints3 =
            (case completionTimeFromAscendingNode ps of
               None \<Rightarrow> constraints2
             | Some end \<Rightarrow>
                 if end = [] then constraints2
                 else constraints2 @ [PropertyIsLessThanOrEqualTo (date_end cfg) end])
      in constraints3)"

text \<open>Line 156: more than one constraint is wrapped in one inner list.\<close>

definition convert_query_params ::
  "config \<Rightarrow> product_type_def \<Rightarrow> string \<Rightarrow> 'c params \<Rightarrow> 'c constraint_item list" where
  "convert_query_params cfg product_type_def product_type ps =
     (let constraints = collect_constraints cfg product_type_def product_type ps
      in if length constraints > 1 then [Group constraints] else map Single constraints)"

text \<open>The constraints of a returned list, read left to right through the inner lists.\<close>

fun item_constraints :: "'c constraint_item \<Rightarrow> 'c constraint list" where
  "item_constraints (Single c) = [c]"
| "item_constraints (Group cs) = cs"

definition flatten_items :: "'c constraint_item list \<Rightarrow> 'c constraint list" where
  "flatten_items items = concat (map item_constraints items)"

subsection \<open>Records of the catalogue and products\<close>

text \<open>
  A record as the owslib client exposes it: an identifier, the bounding box in the
  default reference system and the native bounding box, each an object of the client or
  \<open>None\<close> when the record has no such element, the references (dicts with the keys
  \<open>scheme\<close> and \<open>url\<close>) and the XML payload. Coordinates are of a type \<open>'c\<close> of their
  own: the module never computes with them.

  A reference system of the client has the identifier it was built from (\<open>id\<close>, the
  whole string, such as \<open>EPSG:32631\<close> or a URN), the authority and the code parsed out of
  it. A bounding box has its four bounds as attributes, and its reference system, which
  is \<open>None\<close> when the element names none.
\<close>

record Crs =
  crs_id :: string
  crs_authority :: "string option"
  crs_code :: "int option"

record 'c BoundingBox =
  minx :: 'c
  miny :: 'c
  maxx :: 'c
  maxy :: 'c
  crs :: "Crs option"

record reference =
  scheme :: string
  url :: string

record 'c raw_record =
  rec_identifier :: string
  bbox_wgs84 :: "'c BoundingBox option"
  bbox :: "'c BoundingBox option"
  references :: "reference list"
  xml :: string

text \<open>\<open>geometry.box(minx, miny, maxx, maxy)\<close> of shapely, kept as a constructor.\<close>

datatype 'c polygon = box 'c 'c 'c 'c

text \<open>
  The local variable \<open>bbox\<close> of \<open>__build_product\<close> holds either the object read from
  \<open>rec.bbox_wgs84\<close> or the 4-tuple assembled at line 109.
\<close>

datatype 'c bbox_value = BoxObject "'c BoundingBox" | BoxTuple 'c 'c 'c 'c

text \<open>
  A value of the properties dict: one extracted by \<open>properties_from_xml\<close>, or one of
  the three the plugin sets itself.
\<close>

datatype ('c, 'v) property_value = Mapped 'v | Str string | Geometry "'c polygon"

text \<open>
  \<open>EOProduct(product_type, instance_name, download_url, properties, searched_bbox=...)\<close>:
  the arguments of the constructor call, in its order.
\<close>

record ('c, 'v) EOProduct =
  eo_product_type :: string
  eo_provider :: string
  eo_download_url :: string
  eo_properties :: "string \<rightharpoonup> ('c, 'v) property_value"
  searched_bbox :: "'c footprint option"

subsection \<open>What the module calls\<close>

text \<open>
  The functions of the imported libraries, as parameters. \<open>'k\<close> is the catalogue object
  of owslib and \<open>'pr\<close> a projection of pyproj. \<open>getrecords2\<close> is a method of a mutable
  object: it returns the exception it raised, if any, and the object as the call left it;
  \<open>records\<close> reads \<open>catalog.records.values()\<close>. \<open>transform pr x y\<close> is
  \<open>pyproj.transform(pr, DEFAULT_PROJ, x, y)\<close>. \<open>re_compile p\<close> gives the \<open>search\<close>
  method of the compiled pattern, as a test.
\<close>

record ('c, 'v, 'k, 'pr) externals =
  CatalogueServiceWeb :: "string \<Rightarrow> string \<Rightarrow> string option \<Rightarrow> string option \<Rightarrow> py_error + 'k"
  getrecords2 :: "'k \<Rightarrow> 'c constraint_item list \<Rightarrow> string \<Rightarrow> nat \<Rightarrow> py_error option \<times> 'k"
  records :: "'k \<Rightarrow> 'c raw_record list"
  Proj :: "string \<Rightarrow> py_error + 'pr"
  transform :: "'pr \<Rightarrow> 'c \<Rightarrow> 'c \<Rightarrow> py_error + 'c \<times> 'c"
  re_compile :: "string \<Rightarrow> py_error + (string \<Rightarrow> bool)"
  properties_from_xml :: "string \<Rightarrow> (string \<times> mapping_rule) list \<Rightarrow> py_error + (string \<rightharpoonup> 'v)"
  slugify :: "string \<Rightarrow> string"

record regex =
  pattern :: string
  search :: "string \<Rightarrow> bool"

text \<open>The plugin object: its configuration, its two names and the catalogue, once made.\<close>

record 'k CSWSearch =
  config :: config
  plugin_name :: string
  instance_name :: string
  catalog :: "'k option"

record credentials =
  username :: "string option"
  password :: "string option"

text \<open>The messages the module logs, one constructor per logging call, with its arguments.\<close>

datatype log_entry =
    Info_new_search string string
  | Debug_initialising string
  | Warning_initialization_failed py_error
  | Debug_querying string string
  | Warning_failed_to_query string string
  | Info_found nat string
  | Info_found_overall nat

subsection \<open>Building a product (lines 99 to 129)\<close>

text \<open>\<open>str\<close> of an integer: its decimal digits, with a sign when negative.\<close>

definition digit_char :: "nat \<Rightarrow> char" where
  "digit_char d = ''0123456789'' ! d"

fun str_nat :: "nat \<Rightarrow> string" where
  "str_nat n =
     (if n < 10 then [digit_char n] else str_nat (n div 10) @ [digit_char (n mod 10)])"

declare str_nat.simps [simp del]

definition str_int :: "int \<Rightarrow> string" where
  "str_int i = (if i < 0 then ''-'' @ str_nat (nat (- i)) else str_nat (nat i))"

definition SUPPORTED_REFERENCE_SCHEMES :: "string list" where
  "SUPPORTED_REFERENCE_SCHEMES = [''WWW:DOWNLOAD-1.0-http--download'']"

text \<open>Lines 103 to 105: the code handed to \<open>pyproj.Proj\<close>.\<close>

definition proj_code :: "Crs \<Rightarrow> string" where
  "proj_code c =
     (case crs_code c of
        None \<Rightarrow> ''EPSG:4326''
      | Some n \<Rightarrow> if n \<noteq> 0 \<and> n > 0 then crs_id c @ '':'' @ str_int n else ''EPSG:4326'')"

text \<open>
  Lines 101 to 109: the bounding box of the product. An object is true, so a record with
  a box in the default reference system keeps that object. Otherwise \<open>rec.bbox.crs.code\<close>
  is read, which raises AttributeError when the record has no native box or the box no
  reference system; then the corner of the maxima is transformed, then the corner of the
  minima, and the tuple is assembled.
\<close>

definition resolve_bbox ::
  "('c, 'v, 'k, 'pr) externals \<Rightarrow> 'c raw_record \<Rightarrow> py_error + 'c bbox_value" where
  "resolve_bbox E rec =
     (case bbox_wgs84 rec of
        Some b \<Rightarrow> Inr (BoxObject b)
      | None \<Rightarrow>
          (case bbox rec of
             None \<Rightarrow> Inl (OtherException ''AttributeError'')
           | Some rec_bbox \<Rightarrow>
               (case crs rec_bbox of
                  None \<Rightarrow> Inl (OtherException ''AttributeError'')
                | Some rec_crs \<Rightarrow>
                    (case Proj E (proj_code rec_crs) of
                       Inl e \<Rightarrow> Inl e
                     | Inr rec_proj \<Rightarrow>
                         (case transform E rec_proj (maxx rec_bbox) (maxy rec_bbox) of
                            Inl e \<Rightarrow> Inl e
                          | Inr (maxx', maxy') \<Rightarrow>
                              (case transform E rec_proj (minx rec_bbox) (miny rec_bbox) of
                                 Inl e \<Rightarrow> Inl e
                               | Inr (minx', miny') \<Rightarrow>
                                   Inr (BoxTuple minx' miny' maxx' maxy')))))))"

text \<open>
  Line 121, \<open>geometry.box(*bbox)\<close>: the star unpacks a tuple into the four arguments,
  and raises TypeError on an object that is not iterable, as a bounding box of the client
  is.
\<close>

fun geometry_box :: "'c bbox_value \<Rightarrow> py_error + 'c polygon" where
  "geometry_box (BoxTuple x0 y0 x1 y1) = Inr (box x0 y0 x1 y1)"
| "geometry_box (BoxObject b) = Inl (OtherException ''TypeError'')"

text \<open>
  Lines 110 to 118: the loop over the references, which stops at the first supported
  scheme. Both branches of the filter test assign the same URL.
\<close>

fun select_download_url :: "regex \<Rightarrow> reference list \<Rightarrow> string" where
  "select_download_url resource_filter [] = []"
| "select_download_url resource_filter (ref # refs) =
     (if scheme ref \<in> set SUPPORTED_REFERENCE_SCHEMES
      then (if pattern resource_filter \<noteq> [] \<and> search resource_filter (url ref)
            then url ref
            else url ref)
      else select_download_url resource_filter refs)"

definition build_product ::
  "('c, 'v, 'k, 'pr) externals \<Rightarrow> 'k CSWSearch \<Rightarrow> 'c raw_record \<Rightarrow> string \<Rightarrow> 'c params
     \<Rightarrow> py_error + ('c, 'v) EOProduct" where
  "build_product E self rec product_type kwargs =
     (case resolve_bbox E rec of
        Inl e \<Rightarrow> Inl e
      | Inr bbox_val \<Rightarrow>
          (let p = (case resource_location_filter (config self) of None \<Rightarrow> [] | Some f \<Rightarrow> f)
           in case re_compile E p of
                Inl e \<Rightarrow> Inl e
              | Inr srch \<Rightarrow>
                  (let resource_filter = \<lparr>pattern = p, search = srch\<rparr>;
                       download_url = select_download_url resource_filter (references rec)
                   in case properties_from_xml E (xml rec) (metadata_mapping (config self)) of
                        Inl e \<Rightarrow> Inl e
                      | Inr props \<Rightarrow>
                          (case geometry_box bbox_val of
                             Inl e \<Rightarrow> Inl e
                           | Inr polygon \<Rightarrow>
                               Inr \<lparr>eo_product_type = product_type,
                                    eo_provider = instance_name self,
                                    eo_download_url = download_url,
                                    eo_properties =
                                      (map_option Mapped \<circ> props)
                                        (''title'' \<mapsto> Str (slugify E (rec_identifier rec)),
                                         ''geometry'' \<mapsto> Geometry polygon,
                                         ''productType'' \<mapsto> Str product_type),
                                    searched_bbox = footprints kwargs\<rparr>))))"

text \<open>The list comprehension of lines 77 and 78; the first exception ends it.\<close>

fun build_products ::
  "('c, 'v, 'k, 'pr) externals \<Rightarrow> 'k CSWSearch \<Rightarrow> string \<Rightarrow> 'c params \<Rightarrow> 'c raw_record list
     \<Rightarrow> py_error + ('c, 'v) EOProduct list" where
  "build_products E self product_type kwargs [] = Inr []"
| "build_products E self product_type kwargs (rec # recs) =
     (case build_product E self rec product_type kwargs of
        Inl e \<Rightarrow> Inl e
      | Inr p \<Rightarrow>
          (case build_products E self product_type kwargs recs of
             Inl e \<Rightarrow> Inl e
           | Inr ps \<Rightarrow> Inr (p # ps)))"

subsection \<open>The catalogue and the query (lines 56 to 97)\<close>

text \<open>
  \<open>__init_catalog\<close>: nothing happens once a catalogue exists; otherwise the constructor
  runs and any exception it raises is logged and dropped.
\<close>

definition init_catalog ::
  "('c, 'v, 'k, 'pr) externals \<Rightarrow> 'k CSWSearch \<Rightarrow> string option \<Rightarrow> string option
     \<Rightarrow> log_entry list \<Rightarrow> 'k CSWSearch \<times> log_entry list" where
  "init_catalog E self user pass lg =
     (case catalog self of
        Some k \<Rightarrow> (self, lg)
      | None \<Rightarrow>
          (let lg1 = lg @ [Debug_initialising (api_endpoint (config self))]
           in case CatalogueServiceWeb E (api_endpoint (config self))
                     (case version (config self) of None \<Rightarrow> ''2.0.2'' | Some v \<Rightarrow> v) user pass of
                Inr k \<Rightarrow> (self\<lparr>catalog := Some k\<rparr>, lg1)
              | Inl e \<Rightarrow> (self, lg1 @ [Warning_initialization_failed e])))"

text \<open>
  The loop of lines 65 to 80 over the definitions still to run, from the catalogue
  object \<open>k\<close>, the results so far and the log so far. An outcome is the list of results or
  the exception that left the loop, with the catalogue object and the log at that point.
\<close>

type_synonym ('c, 'v, 'k) outcome =
  "(py_error + ('c, 'v) EOProduct list) \<times> 'k \<times> log_entry list"

fun query_loop ::
  "('c, 'v, 'k, 'pr) externals \<Rightarrow> 'k CSWSearch \<Rightarrow> string \<Rightarrow> 'c params \<Rightarrow> product_type_def list
     \<Rightarrow> 'k \<Rightarrow> ('c, 'v) EOProduct list \<Rightarrow> log_entry list \<Rightarrow> ('c, 'v, 'k) outcome" where
  "query_loop E self product_type kwargs [] k results lg = (Inr results, k, lg)"
| "query_loop E self product_type kwargs (product_type_def # defs) k results lg =
     (let product_type_search_tag = name product_type_def;
          lg1 = lg @ [Debug_querying product_type_search_tag product_type];
          constraints = convert_query_params (config self) product_type_def product_type kwargs
      in case getrecords2 E k constraints ''full'' 10 of
           (Some ExceptionReport, k') \<Rightarrow>
             query_loop E self product_type kwargs defs k' results
               (lg1 @ [Warning_failed_to_query product_type_search_tag product_type])
         | (Some (OtherException c), k') \<Rightarrow> (Inl (OtherException c), k', lg1)
         | (None, k') \<Rightarrow>
             (case build_products E self product_type kwargs (records E k') of
                Inl e \<Rightarrow> (Inl e, k', lg1)
              | Inr partial_results \<Rightarrow>
                  query_loop E self product_type kwargs defs k' (results @ partial_results)
                    (lg1 @ [Info_found (length partial_results) product_type_search_tag])))"

text \<open>Lines 81 and 82, after the loop: the count is logged and the list returned.\<close>

fun query_return ::
  "'k CSWSearch \<Rightarrow> ('c, 'v, 'k) outcome
     \<Rightarrow> (py_error + ('c, 'v) EOProduct list) \<times> 'k CSWSearch \<times> log_entry list" where
  "query_return self (Inr results, k, lg) =
     (Inr results, self\<lparr>catalog := Some k\<rparr>, lg @ [Info_found_overall (length results)])"
| "query_return self (Inl e, k, lg) = (Inl e, self\<lparr>catalog := Some k\<rparr>, lg)"

text \<open>
  \<open>query\<close>: the result or the exception raised, the plugin object and the log after the
  call. \<open>auth\<close> is the value popped from the keyword arguments, read as its credentials.
\<close>

definition query ::
  "('c, 'v, 'k, 'pr) externals \<Rightarrow> 'k CSWSearch \<Rightarrow> string \<Rightarrow> credentials option \<Rightarrow> 'c params
     \<Rightarrow> (py_error + ('c, 'v) EOProduct list) \<times> 'k CSWSearch \<times> log_entry list" where
  "query E self product_type auth kwargs =
     (let lg0 = [Info_new_search product_type (plugin_name self)];
          (self1, lg1) =
            (case auth of
               Some a \<Rightarrow> init_catalog E self (username a) (password a) lg0
             | None \<Rightarrow> init_catalog E self None None lg0)
      in case catalog self1 of
           Some k \<Rightarrow>
             query_return self1
               (query_loop E self1 product_type kwargs (pt_tags (config self1)) k [] lg1)
         | None \<Rightarrow> (Inr [], self1, lg1 @ [Info_found_overall 0]))"

subsection \<open>The selection of the specification\<close>

text \<open>
  The specification describes the selection of the download URL without the filter: the
  URL of the first reference with a supported scheme, and the empty string when there is
  none. This is that description, to be compared with the loop of the source.
\<close>

fun select_download_url_unfiltered :: "reference list \<Rightarrow> string" where
  "select_download_url_unfiltered [] = []"
| "select_download_url_unfiltered (ref # refs) =
     (if scheme ref \<in> set SUPPORTED_REFERENCE_SCHEMES then url ref
      else select_download_url_unfiltered refs)"

subsection \<open>The box and the code of the specification\<close>



subsection \<open>A small catalogue, for examples\<close>

text \<open>
  One record in longitude and latitude, whose reference system has no code the client
  could parse (the code is then -1), with three references, of which the second and the
  third have the supported scheme; the same record with its corners exchanged, with a box
  in the default reference system, without a reference system, and in the projection
  EPSG:32631; a catalogue that answers the tag \<open>broken_tag\<close> with a service exception
  and every other query with the first record; a configuration with these two
  definitions.
\<close>

definition demo_crs :: Crs where
  "demo_crs = \<lparr>crs_id = ''CRS84'', crs_authority = None, crs_code = Some (- 1)\<rparr>"


definition demo_bbox :: "int BoundingBox" where
  "demo_bbox = \<lparr>minx = 1, miny = 43, maxx = 2, maxy = 44, crs = Some demo_crs\<rparr>"

definition demo_wgs84_box :: "int BoundingBox" where
  "demo_wgs84_box =
     \<lparr>minx = 1, miny = 43, maxx = 2, maxy = 44,
      crs = Some \<lparr>crs_id = ''urn:ogc:def:crs:OGC:2:84'', crs_authority = Some ''OGC'',
                  crs_code = Some 84\<rparr>\<rparr>"

definition demo_record :: "int raw_record" where
  "demo_record =
     \<lparr>rec_identifier = ''My Scene 01'',
      bbox_wgs84 = None,
      bbox = Some demo_bbox,
      references =
        [\<lparr>scheme = ''WWW:LINK-1.0-http--link'', url = ''http://catalog.example/scene01.html''\<rparr>,
         \<lparr>scheme = ''WWW:DOWNLOAD-1.0-http--download'', url = ''http://catalog.example/scene01.zip''\<rparr>,
         \<lparr>scheme = ''WWW:DOWNLOAD-1.0-http--download'', url = ''http://mirror.example/scene01.zip''\<rparr>],
      xml = ''<csw:Record/>''\<rparr>"


definition demo_record_wgs84 :: "int raw_record" where
  "demo_record_wgs84 = demo_record\<lparr>bbox_wgs84 := Some demo_wgs84_box\<rparr>"



definition demo_externals :: "(int, string, int raw_record list, string) externals" where
  "demo_externals =
     \<lparr>CatalogueServiceWeb = (\<lambda>endpoint ver user pass.
        if endpoint = ''http://catalog.example/csw'' then Inr []
        else Inl (OtherException ''ConnectionError'')),
      getrecords2 = (\<lambda>k constraints esn maxrecords.
        if hd (flatten_items constraints) = PropertyIsLike ''broken_tag'' ''%S2%''
        then (Some ExceptionReport, k)
        else (None, [demo_record])),
      records = (\<lambda>k. k),
      Proj = (\<lambda>code. if code = ''EPSG:4326'' then Inr code else Inl (OtherException ''RuntimeError'')),
      transform = (\<lambda>pr x y. Inr (x, y)),
      re_compile = (\<lambda>p. Inr (\<lambda>s. take (length p) s = p)),
      properties_from_xml = (\<lambda>payload mapping. Inr Map.empty),
      slugify = (\<lambda>s. if s = ''My Scene 01'' then ''my-scene-01'' else s)\<rparr>"


definition failing_Proj :: "string \<Rightarrow> py_error + string" where
  "failing_Proj code = Inl (OtherException ''RuntimeError'')"

definition failing_transform :: "string \<Rightarrow> int \<Rightarrow> int \<Rightarrow> py_error + int \<times> int" where
  "failing_transform pr x y = Inl (OtherException ''RuntimeError'')"

definition demo_config :: config where
  "demo_config =
     \<lparr>api_endpoint = ''http://catalog.example/csw'',
      version = None,
      pt_tags = [\<lparr>name = ''broken_tag'', matching = None\<rparr>, \<lparr>name = ''type'', matching = Some ''exact''\<rparr>],
      date_start = ''start'',
      date_end = ''end'',
      resource_location_filter = Some ''http://mirror'',
      metadata_mapping = []\<rparr>"

definition demo_self :: "int raw_record list CSWSearch" where
  "demo_self = \<lparr>config = demo_config, plugin_name = ''csw'', instance_name = ''csw_provider'', catalog = None\<rparr>"

definition demo_self_unreachable :: "int raw_record list CSWSearch" where
  "demo_self_unreachable =
     demo_self\<lparr>config := demo_config\<lparr>api_endpoint := ''http://unreachable.example/csw''\<rparr>\<rparr>"

definition demo_credentials :: credentials where
  "demo_credentials = \<lparr>username = Some ''user'', password = Some ''secret''\<rparr>"

definition demo_kwargs :: "int params" where
  "demo_kwargs =
     \<lparr>geometry = Some \<lparr>lonmin = 1, latmin = 43, lonmax = 2, latmax = 44\<rparr>,
      startTimeFromAscendingNode = None,
      completionTimeFromAscendingNode = None,
      footprints = None\<rparr>"

definition demo_product :: "(int, string) EOProduct" where
  "demo_product =
     \<lparr>eo_product_type = ''S2'',
      eo_provider = ''csw_provider'',
      eo_download_url = ''http://catalog.example/scene01.zip'',
      eo_properties =
        (map_option Mapped \<circ> Map.empty)
          (''title'' \<mapsto> Str ''my-scene-01'',
           ''geometry'' \<mapsto> Geometry (box 1 43 2 44),
           ''productType'' \<mapsto> Str ''S2''),
      searched_bbox = None\<rparr>"

section \<open>The constraint builder\<close>

lemma flatten_items_Single: "flatten_items (map Single cs) = cs"
  by (induction cs) (simp_all add: flatten_items_def)

lemma flatten_convert_query_params:
  "flatten_items (convert_query_params cfg d pt ps) = collect_constraints cfg d pt ps"
  by (simp add: convert_query_params_def Let_def flatten_items_Single)
     (simp add: flatten_items_def)

lemma collect_constraints_parts:
  "collect_constraints cfg d pt ps =
     product_type_constraint d pt
       # (case geometry ps of
            None \<Rightarrow> []
          | Some fp \<Rightarrow> [BBox [lonmin fp, latmin fp, lonmax fp, latmax fp]])
       @ (case startTimeFromAscendingNode ps of
            None \<Rightarrow> []
          | Some start \<Rightarrow>
              if start = [] then [] else [PropertyIsGreaterThanOrEqualTo (date_start cfg) start])
       @ (case completionTimeFromAscendingNode ps of
            None \<Rightarrow> []
          | Some end \<Rightarrow>
              if end = [] then [] else [PropertyIsLessThanOrEqualTo (date_end cfg) end])"
  by (simp add: collect_constraints_def Let_def split: option.splits)

lemma convert_query_params_not_Nil: "convert_query_params cfg d pt ps \<noteq> []"
proof -
  have "collect_constraints cfg d pt ps \<noteq> []"
    by (simp add: collect_constraints_parts)
  then show ?thesis
    by (simp add: convert_query_params_def Let_def)
qed

text \<open>
  Claim C2. Whatever the definition, the product type and the other parameters, the
  builder returns a constraint on the product type, and it is the one the matching mode
  selects: \<open>prefix\<close> gives the like-pattern \<open>value%\<close>, \<open>postfix\<close> gives \<open>%value\<close>,
  \<open>exact\<close> gives an equality, and every other mode, \<open>fuzzy\<close> and an unset mode
  included, gives the like-pattern \<open>%value%\<close>.
\<close>

theorem convert_query_params_matching_mode:
  "convert_query_params cfg d pt ps \<noteq> [] \<and>
   hd (flatten_items (convert_query_params cfg d pt ps)) =
     (if matching d = Some ''prefix'' then PropertyIsLike (name d) (pt @ ''%'')
      else if matching d = Some ''postfix'' then PropertyIsLike (name d) (''%'' @ pt)
      else if matching d = Some ''exact'' then PropertyIsEqualTo (name d) pt
      else PropertyIsLike (name d) (''%'' @ pt @ ''%''))"
proof -
  have "hd (collect_constraints cfg d pt ps) = product_type_constraint d pt"
    by (simp add: collect_constraints_parts)
  moreover have "(product_type_constraint d pt :: 'a constraint) =
     (if matching d = Some ''prefix'' then PropertyIsLike (name d) (pt @ ''%'')
      else if matching d = Some ''postfix'' then PropertyIsLike (name d) (''%'' @ pt)
      else if matching d = Some ''exact'' then PropertyIsEqualTo (name d) pt
      else PropertyIsLike (name d) (''%'' @ pt @ ''%''))"
    by (cases "matching d") (simp_all add: product_type_constraint_def)
  ultimately show ?thesis
    by (simp add: flatten_convert_query_params convert_query_params_not_Nil)
qed

text \<open>The example of the specification: mode \<open>typo\<close>, product type \<open>S2\<close>.\<close>

lemma matching_mode_typo_example:
  "convert_query_params cfg \<lparr>name = ''type'', matching = Some ''typo''\<rparr> ''S2''
     \<lparr>geometry = None, startTimeFromAscendingNode = None,
      completionTimeFromAscendingNode = None, footprints = None\<rparr>
   = [Single (PropertyIsLike ''type'' ''%S2%'')]"
  by (simp add: convert_query_params_def collect_constraints_def product_type_constraint_def)

text \<open>
  Claim C3. Let \<open>cs\<close> be the constraints of the returned list, in order; they are the
  constraints the builder produced. When there is more than one, the returned list has
  one element, the group of all of them in order; when there is one or none, the
  returned list is the constraints themselves, ungrouped.
\<close>

theorem convert_query_params_grouping:
  "let out = convert_query_params cfg d pt ps; cs = flatten_items out
   in cs = collect_constraints cfg d pt ps \<and>
      out = (if length cs > 1 then [Group cs] else map Single cs)"
  by (simp only: Let_def flatten_convert_query_params)
     (simp add: convert_query_params_def Let_def)

text \<open>
  Claim C10. The returned list is never empty and holds at least one constraint: the
  constraint on the product type comes first, whatever the parameters, followed by the
  footprint constraint, the start constraint and the end constraint, each only when its
  parameter is set.
\<close>

theorem convert_query_params_product_type_first:
  "convert_query_params cfg d pt ps \<noteq> [] \<and>
   length (flatten_items (convert_query_params cfg d pt ps)) \<ge> 1 \<and>
   flatten_items (convert_query_params cfg d pt ps) =
     product_type_constraint d pt
       # (case geometry ps of
            None \<Rightarrow> []
          | Some fp \<Rightarrow> [BBox [lonmin fp, latmin fp, lonmax fp, latmax fp]])
       @ (case startTimeFromAscendingNode ps of
            None \<Rightarrow> []
          | Some start \<Rightarrow>
              if start = [] then [] else [PropertyIsGreaterThanOrEqualTo (date_start cfg) start])
       @ (case completionTimeFromAscendingNode ps of
            None \<Rightarrow> []
          | Some end \<Rightarrow>
              if end = [] then [] else [PropertyIsLessThanOrEqualTo (date_end cfg) end])"
  by (simp only: flatten_convert_query_params)
     (simp add: collect_constraints_parts convert_query_params_not_Nil)

section \<open>Building a product\<close>




lemma proj_code_cases:
  "proj_code c =
     (case crs_code c of
        None \<Rightarrow> ''EPSG:4326''
      | Some n \<Rightarrow> if n \<le> 0 then ''EPSG:4326'' else crs_id c @ '':'' @ str_int n)"
  by (auto simp: proj_code_def split: option.splits)


lemma geometry_box_Inr:
  "geometry_box v = Inr g \<Longrightarrow> \<exists>x0 y0 x1 y1. v = BoxTuple x0 y0 x1 y1 \<and> g = box x0 y0 x1 y1"
  by (cases v) auto

lemma build_product_Inr:
  assumes "build_product E self rec pt kw = Inr p"
  obtains x0 y0 x1 y1 srch props where
    "resolve_bbox E rec = Inr (BoxTuple x0 y0 x1 y1)"
    "re_compile E (case resource_location_filter (config self) of None \<Rightarrow> [] | Some f \<Rightarrow> f) = Inr srch"
    "properties_from_xml E (xml rec) (metadata_mapping (config self)) = Inr props"
    "p = \<lparr>eo_product_type = pt,
          eo_provider = instance_name self,
          eo_download_url =
            select_download_url
              \<lparr>pattern = (case resource_location_filter (config self) of None \<Rightarrow> [] | Some f \<Rightarrow> f),
               search = srch\<rparr> (references rec),
          eo_properties =
            (map_option Mapped \<circ> props)
              (''title'' \<mapsto> Str (slugify E (rec_identifier rec)),
               ''geometry'' \<mapsto> Geometry (box x0 y0 x1 y1),
               ''productType'' \<mapsto> Str pt),
          searched_bbox = footprints kw\<rparr>"
  using assms
  by (auto simp: build_product_def Let_def split: sum.splits dest!: geometry_box_Inr)

lemma select_download_url_unfiltered_eq:
  "select_download_url resource_filter refs = select_download_url_unfiltered refs"
  by (induction refs) simp_all

lemma select_download_url_unfiltered_find:
  "select_download_url_unfiltered refs =
     (case find (\<lambda>ref. scheme ref = ''WWW:DOWNLOAD-1.0-http--download'') refs of
        None \<Rightarrow> []
      | Some ref \<Rightarrow> url ref)"
  by (induction refs) (simp_all add: SUPPORTED_REFERENCE_SCHEMES_def)

lemma demo_build_product:
  "build_product demo_externals demo_self demo_record ''S2'' demo_kwargs = Inr demo_product"
  by (simp add: build_product_def resolve_bbox_def proj_code_def demo_externals_def
      demo_self_def demo_config_def demo_record_def demo_bbox_def demo_crs_def demo_kwargs_def
      demo_product_def SUPPORTED_REFERENCE_SCHEMES_def)

lemma demo_build_product_no_filter:
  "build_product demo_externals
     (demo_self\<lparr>config := (config demo_self)\<lparr>resource_location_filter := None\<rparr>\<rparr>)
     demo_record ''S2'' demo_kwargs = Inr demo_product"
  by (simp add: build_product_def resolve_bbox_def proj_code_def demo_externals_def
      demo_self_def demo_config_def demo_record_def demo_bbox_def demo_crs_def demo_kwargs_def
      demo_product_def SUPPORTED_REFERENCE_SCHEMES_def)

lemma demo_build_product_filter:
  "build_product demo_externals
     (demo_self\<lparr>config := (config demo_self)\<lparr>resource_location_filter := Some ''http://catalog''\<rparr>\<rparr>)
     demo_record ''S2'' demo_kwargs = Inr demo_product"
  by (simp add: build_product_def resolve_bbox_def proj_code_def demo_externals_def
      demo_self_def demo_config_def demo_record_def demo_bbox_def demo_crs_def demo_kwargs_def
      demo_product_def SUPPORTED_REFERENCE_SCHEMES_def)




text \<open>
  Claim C5. Exactly one scheme is supported, and the download URL of a product is the
  URL of the first reference of the record, in its order, that has this scheme;
  references with another scheme are passed over, and the URL is the empty string when no
  reference has the scheme.
\<close>

theorem build_product_download_url:
  assumes "build_product E self rec pt kw = Inr p"
  shows "SUPPORTED_REFERENCE_SCHEMES = [''WWW:DOWNLOAD-1.0-http--download''] \<and>
         eo_download_url p =
           (case find (\<lambda>ref. scheme ref = ''WWW:DOWNLOAD-1.0-http--download'') (references rec) of
              None \<Rightarrow> []
            | Some ref \<Rightarrow> url ref)"
  using assms
  by (elim build_product_Inr)
     (simp add: select_download_url_unfiltered_eq select_download_url_unfiltered_find
        SUPPORTED_REFERENCE_SCHEMES_def)

theorem build_product_download_url_witness:
  "build_product demo_externals demo_self demo_record ''S2'' demo_kwargs = Inr demo_product \<and>
   eo_download_url demo_product = ''http://catalog.example/scene01.zip'' \<and>
   find (\<lambda>ref. scheme ref = ''WWW:DOWNLOAD-1.0-http--download'') (references demo_record) =
     Some \<lparr>scheme = ''WWW:DOWNLOAD-1.0-http--download'', url = ''http://catalog.example/scene01.zip''\<rparr>"
  using build_product_download_url [OF demo_build_product] demo_build_product
  by (simp add: demo_record_def)

text \<open>
  Claim C7. Whatever the compiled filter (its pattern and what it matches), the loop of
  the source selects what the filter-free selection selects; and two products built from
  the same record under two configured filters have the same download URL, the one of the
  filter-free selection.
\<close>

theorem select_download_url_ignores_filter:
  "select_download_url resource_filter refs = select_download_url_unfiltered refs \<and>
   (\<forall>p p'.
      build_product E (self\<lparr>config := (config self)\<lparr>resource_location_filter := f\<rparr>\<rparr>) rec pt kw = Inr p \<longrightarrow>
      build_product E (self\<lparr>config := (config self)\<lparr>resource_location_filter := f'\<rparr>\<rparr>) rec pt kw = Inr p' \<longrightarrow>
      eo_download_url p = select_download_url_unfiltered (references rec) \<and>
      eo_download_url p' = eo_download_url p)"
proof (intro conjI allI impI)
  show "select_download_url resource_filter refs = select_download_url_unfiltered refs"
    by (rule select_download_url_unfiltered_eq)
next
  fix p p'
  assume a: "build_product E (self\<lparr>config := (config self)\<lparr>resource_location_filter := f\<rparr>\<rparr>) rec pt kw = Inr p"
    and b: "build_product E (self\<lparr>config := (config self)\<lparr>resource_location_filter := f'\<rparr>\<rparr>) rec pt kw = Inr p'"
  from a show l: "eo_download_url p = select_download_url_unfiltered (references rec)"
    by (elim build_product_Inr) (simp add: select_download_url_unfiltered_eq)
  from b have "eo_download_url p' = select_download_url_unfiltered (references rec)"
    by (elim build_product_Inr) (simp add: select_download_url_unfiltered_eq)
  with l show "eo_download_url p' = eo_download_url p"
    by simp
qed

theorem select_download_url_ignores_filter_witness:
  "build_product demo_externals
     (demo_self\<lparr>config := (config demo_self)\<lparr>resource_location_filter := Some ''http://catalog''\<rparr>\<rparr>)
     demo_record ''S2'' demo_kwargs = Inr demo_product \<and>
   build_product demo_externals
     (demo_self\<lparr>config := (config demo_self)\<lparr>resource_location_filter := None\<rparr>\<rparr>)
     demo_record ''S2'' demo_kwargs = Inr demo_product \<and>
   eo_download_url demo_product = select_download_url_unfiltered (references demo_record) \<and>
   select_download_url \<lparr>pattern = ''http://mirror'', search = (\<lambda>s. take 13 s = ''http://mirror'')\<rparr>
     (references demo_record) = ''http://catalog.example/scene01.zip''"
proof -
  note inst = select_download_url_ignores_filter [where resource_filter = "\<lparr>pattern = ''http://mirror'', search = (\<lambda>s. take 13 s = ''http://mirror'')\<rparr>"
      and refs = "references demo_record" and E = demo_externals and self = demo_self
      and f = "Some ''http://catalog''" and f' = None and rec = demo_record and pt = "''S2''"
      and kw = demo_kwargs]
  from inst demo_build_product_filter demo_build_product_no_filter
  have "eo_download_url demo_product = select_download_url_unfiltered (references demo_record)"
    by blast
  moreover from inst
  have "select_download_url \<lparr>pattern = ''http://mirror'', search = (\<lambda>s. take 13 s = ''http://mirror'')\<rparr>
     (references demo_record) = ''http://catalog.example/scene01.zip''"
    by (simp add: demo_record_def SUPPORTED_REFERENCE_SCHEMES_def)
  ultimately show ?thesis
    using demo_build_product_filter demo_build_product_no_filter by simp
qed

text \<open>
  Claim C8. A record with a bounding box in the default reference system keeps that
  object as its box, and neither \<open>Proj\<close> nor \<open>transform\<close> is called: the outcome is
  the same whatever they are. But the object is then unpacked with a star at line 121 as
  if it were the tuple of line 109, which raises TypeError: no product is built from such
  a record, so the box is not used as the claim says.
\<close>

lemma build_product_default_bbox:
  assumes "bbox_wgs84 rec = Some b"
  shows "resolve_bbox E rec = Inr (BoxObject b)"
    and "build_product (E\<lparr>Proj := P, transform := T\<rparr>) self rec pt kw = build_product E self rec pt kw"
    and "build_product E self rec pt kw \<noteq> Inr p"
proof -
  show r: "resolve_bbox E rec = Inr (BoxObject b)"
    using assms by (simp add: resolve_bbox_def)
  have "resolve_bbox (E\<lparr>Proj := P, transform := T\<rparr>) rec = Inr (BoxObject b)"
    using assms by (simp add: resolve_bbox_def)
  with r show "build_product (E\<lparr>Proj := P, transform := T\<rparr>) self rec pt kw = build_product E self rec pt kw"
    by (simp add: build_product_def Let_def split: sum.splits)
  from r show "build_product E self rec pt kw \<noteq> Inr p"
    by (auto elim!: build_product_Inr)
qed

theorem default_bbox_object_raises_TypeError:
  "bbox_wgs84 demo_record_wgs84 = Some demo_wgs84_box \<and>
   resolve_bbox demo_externals demo_record_wgs84 = Inr (BoxObject demo_wgs84_box) \<and>
   build_product demo_externals demo_self demo_record_wgs84 ''S2'' demo_kwargs =
     Inl (OtherException ''TypeError'') \<and>
   build_product (demo_externals\<lparr>Proj := failing_Proj, transform := failing_transform\<rparr>)
     demo_self demo_record_wgs84 ''S2'' demo_kwargs = Inl (OtherException ''TypeError'')"
  by (simp add: build_product_def resolve_bbox_def demo_externals_def demo_record_wgs84_def
      demo_self_def demo_config_def demo_record_def)

text \<open>
  Claim C9. The searched bounding box given to the product is read under the key
  \<open>footprints\<close>, whereas the footprint of the search is the value under \<open>geometry\<close>,
  the key the constraint builder reads. A search that carries a footprint and nothing
  under \<open>footprints\<close> gives products whose searched bounding box is \<open>None\<close>.
\<close>

lemma build_product_searched_bbox:
  "build_product E self rec pt kw = Inr p \<Longrightarrow> searched_bbox p = footprints kw"
  by (elim build_product_Inr) simp

theorem searched_bbox_misses_search_footprint:
  "geometry demo_kwargs = Some \<lparr>lonmin = 1, latmin = 43, lonmax = 2, latmax = 44\<rparr> \<and>
   build_product demo_externals demo_self demo_record ''S2'' demo_kwargs = Inr demo_product \<and>
   searched_bbox demo_product = None"
  using demo_build_product by (simp add: demo_kwargs_def demo_product_def)


section \<open>The query\<close>

lemma query_loop_append:
  "query_loop E self pt kw (ds1 @ ds2) k results lg =
     (case query_loop E self pt kw ds1 k results lg of
        (Inr res1, k1, lg1) \<Rightarrow> query_loop E self pt kw ds2 k1 res1 lg1
      | (Inl e, k1, lg1) \<Rightarrow> (Inl e, k1, lg1))"
proof (induction ds1 arbitrary: k results lg)
  case Nil
  show ?case by simp
next
  case (Cons d ds1)
  show ?case
    by (simp add: Cons.IH Let_def split: prod.splits option.splits py_error.splits sum.splits)
qed

lemma query_loop_results:
  "query_loop E self pt kw ds k results lg =
     (case query_loop E self pt kw ds k [] lg of
        (Inr res, k', lg') \<Rightarrow> (Inr (results @ res), k', lg')
      | (Inl e, k', lg') \<Rightarrow> (Inl e, k', lg'))"
proof (induction ds arbitrary: k results lg)
  case Nil
  show ?case by simp
next
  case (Cons d ds)
  note ih = Cons.IH
  show ?case
  proof (cases "getrecords2 E k (convert_query_params (config self) d pt kw) ''full'' 10")
    case (Pair exc k')
    show ?thesis
    proof (cases exc)
      case None
      show ?thesis
      proof (cases "build_products E self pt kw (records E k')")
        case (Inl e)
        with Pair None show ?thesis by (simp add: Let_def)
      next
        case (Inr partial_results)
        show ?thesis
          using Pair None Inr
            ih [of k' "results @ partial_results"]
            ih [of k' "partial_results"]
          by (simp add: Let_def split: prod.splits sum.splits)
      qed
    next
      case (Some e)
      show ?thesis
      proof (cases e)
        case ExceptionReport
        with Pair Some show ?thesis
          using ih [of k' results] by (simp add: Let_def)
      next
        case (OtherException c)
        with Pair Some show ?thesis by (simp add: Let_def)
      qed
    qed
  qed
qed

lemma query_loop_log:
  "\<exists>ext. snd (snd (query_loop E self pt kw ds k results lg)) = lg @ ext"
proof (induction ds arbitrary: k results lg)
  case Nil
  show ?case by simp
next
  case (Cons d ds)
  show ?case
  proof (cases "getrecords2 E k (convert_query_params (config self) d pt kw) ''full'' 10")
    case (Pair exc k')
    show ?thesis
    proof (cases exc)
      case None
      show ?thesis
      proof (cases "build_products E self pt kw (records E k')")
        case (Inl e)
        with Pair None show ?thesis by (simp add: Let_def)
      next
        case (Inr partial_results)
        from Cons.IH [of k' "results @ partial_results"
            "lg @ [Debug_querying (name d) pt, Info_found (length partial_results) (name d)]"]
        show ?thesis
          using Pair None Inr by (auto simp: Let_def)
      qed
    next
      case (Some e)
      show ?thesis
      proof (cases e)
        case ExceptionReport
        from Cons.IH [of k' results
            "lg @ [Debug_querying (name d) pt, Warning_failed_to_query (name d) pt]"]
        show ?thesis
          using Pair Some ExceptionReport by (auto simp: Let_def)
      next
        case (OtherException c)
        with Pair Some show ?thesis by (simp add: Let_def)
      qed
    qed
  qed
qed

lemma query_connected:
  assumes "init_catalog E self (case auth of None \<Rightarrow> None | Some a \<Rightarrow> username a)
             (case auth of None \<Rightarrow> None | Some a \<Rightarrow> password a)
             [Info_new_search pt (plugin_name self)] = (self1, lg0)"
    and "catalog self1 = Some k"
  shows "query E self pt auth kw =
           query_return self1 (query_loop E self1 pt kw (pt_tags (config self1)) k [] lg0)"
  using assms by (cases auth) (simp_all add: query_def Let_def)

lemma demo_build_product_connected:
  "build_product demo_externals (demo_self\<lparr>catalog := Some []\<rparr>) demo_record ''S2'' demo_kwargs =
     Inr demo_product"
  by (simp add: build_product_def resolve_bbox_def proj_code_def demo_externals_def
      demo_self_def demo_config_def demo_record_def demo_bbox_def demo_crs_def demo_kwargs_def
      demo_product_def SUPPORTED_REFERENCE_SCHEMES_def)

text \<open>
  Claim C1. Take a call of \<open>query\<close> with a catalogue (made by this call or an earlier
  one), and a configured definition \<open>d\<close> for which the remote query raises the service
  exception, the definitions before it having run to their end with the results
  \<open>res1\<close>. Then the outcome of \<open>query\<close> is the outcome of the loop over the
  definitions after \<open>d\<close>, in their order, started from the catalogue object as the failed
  call left it: their results come after \<open>res1\<close>, \<open>d\<close> adds none, and an exception
  leaves \<open>query\<close> only if one of them raises it. The log of the call holds the warning
  for \<open>d\<close>, right after what was logged before it.
\<close>

theorem query_isolates_service_exception:
  assumes init: "init_catalog E self (case auth of None \<Rightarrow> None | Some a \<Rightarrow> username a)
                   (case auth of None \<Rightarrow> None | Some a \<Rightarrow> password a)
                   [Info_new_search pt (plugin_name self)] = (self1, lg0)"
    and cat: "catalog self1 = Some k"
    and defs: "pt_tags (config self1) = ds1 @ d # ds2"
    and before: "query_loop E self1 pt kw ds1 k [] lg0 = (Inr res1, k1, lg1)"
    and raised: "getrecords2 E k1 (convert_query_params (config self1) d pt kw) ''full'' 10 =
                   (Some ExceptionReport, k2)"
  shows "query E self pt auth kw =
           (case query_loop E self1 pt kw ds2 k2 []
                   (lg1 @ [Debug_querying (name d) pt, Warning_failed_to_query (name d) pt]) of
              (Inr res2, k3, lg3) \<Rightarrow>
                (Inr (res1 @ res2), self1\<lparr>catalog := Some k3\<rparr>,
                 lg3 @ [Info_found_overall (length (res1 @ res2))])
            | (Inl e, k3, lg3) \<Rightarrow> (Inl e, self1\<lparr>catalog := Some k3\<rparr>, lg3))
         \<and> (\<exists>ext. snd (snd (query E self pt auth kw)) =
                lg1 @ [Debug_querying (name d) pt, Warning_failed_to_query (name d) pt] @ ext)"
proof -
  let ?lg = "lg1 @ [Debug_querying (name d) pt, Warning_failed_to_query (name d) pt]"
  have step: "query_loop E self1 pt kw (d # ds2) k1 res1 lg1 = query_loop E self1 pt kw ds2 k2 res1 ?lg"
    using raised by (simp add: Let_def)
  have loop: "query_loop E self1 pt kw (ds1 @ d # ds2) k [] lg0 = query_loop E self1 pt kw ds2 k2 res1 ?lg"
    using before step by (simp add: query_loop_append)
  have q: "query E self pt auth kw = query_return self1 (query_loop E self1 pt kw ds2 k2 res1 ?lg)"
    using query_connected [OF init cat] defs loop by simp
  obtain r k3 lg3 where rest: "query_loop E self1 pt kw ds2 k2 [] ?lg = (r, k3, lg3)"
    by (cases "query_loop E self1 pt kw ds2 k2 [] ?lg") auto
  have full: "query_loop E self1 pt kw ds2 k2 res1 ?lg =
     (case r of Inr res2 \<Rightarrow> (Inr (res1 @ res2), k3, lg3) | Inl e \<Rightarrow> (Inl e, k3, lg3))"
    using query_loop_results [of E self1 pt kw ds2 k2 res1 ?lg] rest
    by (simp split: sum.splits)
  have first: "query E self pt auth kw =
           (case query_loop E self1 pt kw ds2 k2 [] ?lg of
              (Inr res2, k3, lg3) \<Rightarrow>
                (Inr (res1 @ res2), self1\<lparr>catalog := Some k3\<rparr>,
                 lg3 @ [Info_found_overall (length (res1 @ res2))])
            | (Inl e, k3, lg3) \<Rightarrow> (Inl e, self1\<lparr>catalog := Some k3\<rparr>, lg3))"
    unfolding q full rest by (cases r) simp_all
  obtain ext where ext: "lg3 = ?lg @ ext"
    using query_loop_log [of E self1 pt kw ds2 k2 "[]" ?lg] rest by auto
  have "\<exists>ext'. snd (snd (query E self pt auth kw)) = ?lg @ ext'"
    unfolding q full using ext by (cases r) simp_all
  with first show ?thesis by simp
qed

theorem query_isolates_service_exception_witness:
  "init_catalog demo_externals demo_self None None [Info_new_search ''S2'' ''csw''] =
     (demo_self\<lparr>catalog := Some []\<rparr>,
      [Info_new_search ''S2'' ''csw'', Debug_initialising ''http://catalog.example/csw'']) \<and>
   pt_tags (config demo_self) =
     [] @ \<lparr>name = ''broken_tag'', matching = None\<rparr> # [\<lparr>name = ''type'', matching = Some ''exact''\<rparr>] \<and>
   getrecords2 demo_externals []
     (convert_query_params demo_config \<lparr>name = ''broken_tag'', matching = None\<rparr> ''S2'' demo_kwargs)
     ''full'' 10 = (Some ExceptionReport, []) \<and>
   query demo_externals demo_self ''S2'' None demo_kwargs =
     (Inr [demo_product],
      demo_self\<lparr>catalog := Some [demo_record]\<rparr>,
      [Info_new_search ''S2'' ''csw'',
       Debug_initialising ''http://catalog.example/csw'',
       Debug_querying ''broken_tag'' ''S2'',
       Warning_failed_to_query ''broken_tag'' ''S2'',
       Debug_querying ''type'' ''S2'',
       Info_found 1 ''type'',
       Info_found_overall 1]) \<and>
   eo_properties demo_product ''title'' = Some (Str ''my-scene-01'')"
proof -
  let ?self1 = "demo_self\<lparr>catalog := Some []\<rparr>"
  let ?lg0 = "[Info_new_search ''S2'' ''csw'', Debug_initialising ''http://catalog.example/csw'']"
  let ?d = "\<lparr>name = ''broken_tag'', matching = None\<rparr>"
  let ?d2 = "\<lparr>name = ''type'', matching = Some ''exact''\<rparr>"
  have init: "init_catalog demo_externals demo_self
                (case None :: credentials option of None \<Rightarrow> None | Some a \<Rightarrow> username a)
                (case None :: credentials option of None \<Rightarrow> None | Some a \<Rightarrow> password a)
                [Info_new_search ''S2'' (plugin_name demo_self)] = (?self1, ?lg0)"
    by (simp add: init_catalog_def demo_self_def demo_config_def demo_externals_def)
  have cat: "catalog ?self1 = Some []"
    by simp
  have defs: "pt_tags (config ?self1) = [] @ ?d # [?d2]"
    by (simp add: demo_self_def demo_config_def)
  have before: "query_loop demo_externals ?self1 ''S2'' demo_kwargs [] [] [] ?lg0 = (Inr [], [], ?lg0)"
    by simp
  have raised: "getrecords2 demo_externals []
                  (convert_query_params (config ?self1) ?d ''S2'' demo_kwargs) ''full'' 10 =
                (Some ExceptionReport, [])"
    by (simp add: demo_self_def demo_externals_def convert_query_params_def
        collect_constraints_def product_type_constraint_def demo_kwargs_def flatten_items_def)
  have second: "getrecords2 demo_externals []
                  (convert_query_params (config demo_self) ?d2 ''S2'' demo_kwargs) ''full'' 10 =
                (None, [demo_record])"
    by (simp add: demo_self_def demo_externals_def convert_query_params_def
        collect_constraints_def product_type_constraint_def demo_kwargs_def flatten_items_def)
  have recs: "records demo_externals [demo_record] = [demo_record]"
    by (simp add: demo_externals_def)
  have rest: "query_loop demo_externals ?self1 ''S2'' demo_kwargs [?d2] [] []
                (?lg0 @ [Debug_querying (name ?d) ''S2'', Warning_failed_to_query (name ?d) ''S2'']) =
              (Inr [demo_product], [demo_record],
               ?lg0 @ [Debug_querying ''broken_tag'' ''S2'', Warning_failed_to_query ''broken_tag'' ''S2'',
                       Debug_querying ''type'' ''S2'', Info_found 1 ''type''])"
    by (simp add: second recs demo_build_product_connected Let_def)
  have title: "eo_properties demo_product ''title'' = Some (Str ''my-scene-01'')"
    by (simp add: demo_product_def)
  have "query demo_externals demo_self ''S2'' None demo_kwargs =
     (Inr [demo_product], demo_self\<lparr>catalog := Some [demo_record]\<rparr>,
      ?lg0 @ [Debug_querying ''broken_tag'' ''S2'', Warning_failed_to_query ''broken_tag'' ''S2'',
              Debug_querying ''type'' ''S2'', Info_found 1 ''type'', Info_found_overall 1])"
    using query_isolates_service_exception [OF init cat defs before raised] rest by simp
  with init raised defs title show ?thesis
    by (simp add: demo_self_def)
qed

text \<open>
  Claim C6. When no catalogue exists yet and the constructor of the catalogue raises,
  whatever the exception, \<open>query\<close> raises nothing: it returns the empty list, leaves the
  plugin without a catalogue, and has logged the failure as a warning.
\<close>

theorem query_connection_failure_returns_empty:
  assumes "catalog self = None"
    and "CatalogueServiceWeb E (api_endpoint (config self))
           (case version (config self) of None \<Rightarrow> ''2.0.2'' | Some v \<Rightarrow> v)
           (case auth of None \<Rightarrow> None | Some a \<Rightarrow> username a)
           (case auth of None \<Rightarrow> None | Some a \<Rightarrow> password a) = Inl e"
  shows "query E self pt auth kw =
           (Inr [], self,
            [Info_new_search pt (plugin_name self),
             Debug_initialising (api_endpoint (config self)),
             Warning_initialization_failed e,
             Info_found_overall 0])"
  using assms by (cases auth) (simp_all add: query_def init_catalog_def Let_def)

theorem query_connection_failure_returns_empty_witness:
  "catalog demo_self_unreachable = None \<and>
   CatalogueServiceWeb demo_externals ''http://unreachable.example/csw'' ''2.0.2''
     (Some ''user'') (Some ''secret'') = Inl (OtherException ''ConnectionError'') \<and>
   query demo_externals demo_self_unreachable ''S2'' (Some demo_credentials) demo_kwargs =
     (Inr [], demo_self_unreachable,
      [Info_new_search ''S2'' ''csw'',
       Debug_initialising ''http://unreachable.example/csw'',
       Warning_initialization_failed (OtherException ''ConnectionError''),
       Info_found_overall 0])"
proof -
  have h1: "catalog demo_self_unreachable = None"
    by (simp add: demo_self_unreachable_def demo_self_def)
  have h2: "CatalogueServiceWeb demo_externals (api_endpoint (config demo_self_unreachable))
           (case version (config demo_self_unreachable) of None \<Rightarrow> ''2.0.2'' | Some v \<Rightarrow> v)
           (case Some demo_credentials of None \<Rightarrow> None | Some a \<Rightarrow> username a)
           (case Some demo_credentials of None \<Rightarrow> None | Some a \<Rightarrow> password a) =
         Inl (OtherException ''ConnectionError'')"
    by (simp add: demo_self_unreachable_def demo_self_def demo_config_def demo_externals_def
        demo_credentials_def)
  show ?thesis
    using query_connection_failure_returns_empty [OF h1 h2, of "''S2''" demo_kwargs] h1 h2
    by (simp add: demo_self_unreachable_def demo_self_def demo_config_def demo_credentials_def)
qed

end
